theory Spec2Isabelle
  imports Complex_Main "HOL-Library.Multiset"
begin

section \<open>Data model\<close>

text \<open>
  A mongoose \<^verbatim>\<open>ObjectId\<close> is compared by value; it is modelled by its string form.
  Dates are milliseconds since the epoch. The coordinates are carried around and never
  computed with, so they are opaque numbers here. The automatic timestamps and the
  version key of a stored document are left out: no operation below reads them.
\<close>

type_synonym ObjectId = string

text \<open>The fields of the event schema (\<^verbatim>\<open>eventSchema\<close>), without the identifier.\<close>

record EventFields =
  title :: string
  description :: string
  date :: int
  capacity :: int
  skillLevel :: "string option"
  location :: "string option"
  latitude :: "real option"
  longitude :: "real option"
  createdBy :: ObjectId
  attendees :: "ObjectId list"
  photo :: "string option"

text \<open>A stored document \<^verbatim>\<open>IEvent\<close>: the fields and the identifier \<^verbatim>\<open>_id\<close>.\<close>

record IEvent = EventFields +
  ident :: ObjectId

text \<open>\<^verbatim>\<open>Partial<IEvent>\<close> as the update schema lets it through: every field optional.\<close>

record UpdateEventRequest =
  u_title :: "string option"
  u_description :: "string option"
  u_date :: "int option"
  u_capacity :: "int option"
  u_skillLevel :: "string option"
  u_location :: "string option"
  u_latitude :: "real option"
  u_longitude :: "real option"
  u_attendees :: "ObjectId list option"
  u_photo :: "string option"

section \<open>The document store\<close>

text \<open>
  The collection behind \<^verbatim>\<open>mongoose.model('Event', eventSchema)\<close> is the environment of
  the gateway. It holds the documents in insertion order, the state of the connection
  (every call rejects while it is down), and the calls that reached it.
  \<^verbatim>\<open>_id\<close> is unique in a collection, so at most one document matches an identifier.
\<close>

datatype StoreCall =
    CallCreate
  | CallFindByIdAndUpdate ObjectId
  | CallFindByIdAndDelete ObjectId
  | CallFindOne ObjectId
  | CallFind

datatype MongoError = ConnectionError | ValidationFailed | DuplicateKey

record Store =
  docs :: "IEvent list"
  connected :: bool
  calls :: "StoreCall list"

definition called :: "StoreCall \<Rightarrow> Store \<Rightarrow> Store" where
  "called c db = db\<lparr>calls := calls db @ [c]\<rparr>"

definition lookup :: "Store \<Rightarrow> ObjectId \<Rightarrow> IEvent option" where
  "lookup db i = find (\<lambda>e. ident e = i) (docs db)"

text \<open>\<^verbatim>\<open>trim: true\<close> strips white space at both ends (the ASCII white space here).\<close>

definition isWhiteSpace :: "char \<Rightarrow> bool" where
  "isWhiteSpace c \<longleftrightarrow> c \<in> set [CHR '' '', CHR 0x09, CHR 0x0A, CHR 0x0B, CHR 0x0C, CHR 0x0D]"

definition trim :: "string \<Rightarrow> string" where
  "trim s = rev (dropWhile isWhiteSpace (rev (dropWhile isWhiteSpace s)))"

text \<open>The setters of \<^verbatim>\<open>eventSchema\<close>: the string fields declared with \<^verbatim>\<open>trim\<close>.\<close>

definition castEvent :: "EventFields \<Rightarrow> EventFields" where
  "castEvent d = d\<lparr>title := trim (title d), description := trim (description d),
     skillLevel := map_option trim (skillLevel d), location := map_option trim (location d),
     photo := map_option trim (photo d)\<rparr>"

text \<open>
  The validators of \<^verbatim>\<open>eventSchema\<close>, run on a cast document: \<^verbatim>\<open>required\<close>,
  \<^verbatim>\<open>minlength\<close>, \<^verbatim>\<open>maxlength\<close>, \<^verbatim>\<open>min\<close> and \<^verbatim>\<open>enum\<close>. The list
  \<^verbatim>\<open>SKILL_LEVELS\<close> is imported from a module outside this development and is a parameter.
\<close>

definition validateEvent :: "string list \<Rightarrow> EventFields \<Rightarrow> bool" where
  "validateEvent SKILL_LEVELS d \<longleftrightarrow>
     1 \<le> length (title d) \<and> length (title d) \<le> 100 \<and>
     1 \<le> length (description d) \<and>
     1 \<le> capacity d \<and>
     (case skillLevel d of None \<Rightarrow> True | Some l \<Rightarrow> l \<in> set SKILL_LEVELS)"

definition withId :: "ObjectId \<Rightarrow> EventFields \<Rightarrow> IEvent" where
  "withId i d = \<lparr>title = title d, description = description d, date = date d,
     capacity = capacity d, skillLevel = skillLevel d, location = location d,
     latitude = latitude d, longitude = longitude d, createdBy = createdBy d,
     attendees = attendees d, photo = photo d, ident = i\<rparr>"

text \<open>
  \<^verbatim>\<open>Event.create(doc)\<close>: casts and validates the document and inserts it under the
  identifier \<open>newId\<close> that the driver generated.
\<close>

definition Event_create ::
  "string list \<Rightarrow> ObjectId \<Rightarrow> Store \<Rightarrow> EventFields \<Rightarrow> (MongoError + IEvent) \<times> Store" where
  "Event_create SKILL_LEVELS newId db d =
     (let db1 = called CallCreate db; doc = withId newId (castEvent d) in
      if \<not> connected db then (Inl ConnectionError, db1)
      else if \<not> validateEvent SKILL_LEVELS (castEvent d) then (Inl ValidationFailed, db1)
      else if lookup db newId \<noteq> None then (Inl DuplicateKey, db1)
      else (Inr doc, db1\<lparr>docs := docs db @ [doc]\<rparr>))"

text \<open>
  The \<^verbatim>\<open>$set\<close> of the fields present in the update; the setters run on them, the
  validators do not (\<^verbatim>\<open>runValidators\<close> is not set).
\<close>

definition applyUpdate :: "UpdateEventRequest \<Rightarrow> IEvent \<Rightarrow> IEvent" where
  "applyUpdate u e = e\<lparr>
     title := (case u_title u of None \<Rightarrow> title e | Some v \<Rightarrow> trim v),
     description := (case u_description u of None \<Rightarrow> description e | Some v \<Rightarrow> trim v),
     date := (case u_date u of None \<Rightarrow> date e | Some v \<Rightarrow> v),
     capacity := (case u_capacity u of None \<Rightarrow> capacity e | Some v \<Rightarrow> v),
     skillLevel := (case u_skillLevel u of None \<Rightarrow> skillLevel e | Some v \<Rightarrow> Some (trim v)),
     location := (case u_location u of None \<Rightarrow> location e | Some v \<Rightarrow> Some (trim v)),
     latitude := (case u_latitude u of None \<Rightarrow> latitude e | Some v \<Rightarrow> Some v),
     longitude := (case u_longitude u of None \<Rightarrow> longitude e | Some v \<Rightarrow> Some v),
     attendees := (case u_attendees u of None \<Rightarrow> attendees e | Some v \<Rightarrow> v),
     photo := (case u_photo u of None \<Rightarrow> photo e | Some v \<Rightarrow> Some (trim v))\<rparr>"

text \<open>\<^verbatim>\<open>Event.findByIdAndUpdate(id, update, {new: true})\<close>: the updated document, or null.\<close>

definition Event_findByIdAndUpdate ::
  "Store \<Rightarrow> ObjectId \<Rightarrow> UpdateEventRequest \<Rightarrow> (MongoError + IEvent option) \<times> Store" where
  "Event_findByIdAndUpdate db i u =
     (let db1 = called (CallFindByIdAndUpdate i) db in
      if \<not> connected db then (Inl ConnectionError, db1)
      else (case lookup db i of
              None \<Rightarrow> (Inr None, db1)
            | Some e \<Rightarrow>
                (Inr (Some (applyUpdate u e)),
                 db1\<lparr>docs := map (\<lambda>x. if ident x = i then applyUpdate u x else x) (docs db)\<rparr>)))"

text \<open>\<^verbatim>\<open>Event.findByIdAndDelete(id)\<close>: removes the matching document, if there is one.\<close>

definition Event_findByIdAndDelete ::
  "Store \<Rightarrow> ObjectId \<Rightarrow> (MongoError + IEvent option) \<times> Store" where
  "Event_findByIdAndDelete db i =
     (let db1 = called (CallFindByIdAndDelete i) db in
      if \<not> connected db then (Inl ConnectionError, db1)
      else (Inr (lookup db i), db1\<lparr>docs := filter (\<lambda>x. ident x \<noteq> i) (docs db)\<rparr>))"

text \<open>\<^verbatim>\<open>Event.findOne({ _id })\<close>.\<close>

definition Event_findOne :: "Store \<Rightarrow> ObjectId \<Rightarrow> (MongoError + IEvent option) \<times> Store" where
  "Event_findOne db i =
     (let db1 = called (CallFindOne i) db in
      if \<not> connected db then (Inl ConnectionError, db1) else (Inr (lookup db i), db1))"

text \<open>
  \<^verbatim>\<open>Event.find().sort({ date: -1 }).exec()\<close>: every document, latest date first. The
  store does not fix the order of documents with equal dates; the model keeps them in
  insertion order.
\<close>

definition Event_find_sort_date_desc :: "Store \<Rightarrow> (MongoError + IEvent list) \<times> Store" where
  "Event_find_sort_date_desc db =
     (let db1 = called CallFind db in
      if \<not> connected db then (Inl ConnectionError, db1)
      else (Inr (sort_key (\<lambda>e. - date e) (docs db)), db1))"

section \<open>The gateway \<^verbatim>\<open>EventModel\<close>\<close>

text \<open>
  \<^verbatim>\<open>throw new Error(message)\<close> is the value \<open>Error message\<close>. The schemas
  \<^verbatim>\<open>createEventSchema\<close> and \<^verbatim>\<open>updateEventSchema\<close> are imported from a module outside
  this development; \<^verbatim>\<open>schema.parse\<close> is a parameter that returns the parsed payload or
  the issues of a \<^verbatim>\<open>ZodError\<close>. Writing to the console or the logger is not modelled.
\<close>

datatype Error = Error string

type_synonym ZodError = "string list"

definition EventModel_create ::
  "(EventFields \<Rightarrow> ZodError + EventFields) \<Rightarrow> string list \<Rightarrow> ObjectId \<Rightarrow> Store \<Rightarrow> EventFields
     \<Rightarrow> (Error + IEvent) \<times> Store" where
  "EventModel_create createEventSchema SKILL_LEVELS newId db eventData =
     (case createEventSchema eventData of
        Inl issues \<Rightarrow> (Inl (Error ''Invalid update data''), db)
      | Inr validatedData \<Rightarrow>
          (case Event_create SKILL_LEVELS newId db validatedData of
             (Inl err, db') \<Rightarrow> (Inl (Error ''Failed to create event''), db')
           | (Inr doc, db') \<Rightarrow> (Inr doc, db')))"

definition EventModel_update ::
  "(UpdateEventRequest \<Rightarrow> ZodError + UpdateEventRequest) \<Rightarrow> Store \<Rightarrow> ObjectId
     \<Rightarrow> UpdateEventRequest \<Rightarrow> (Error + IEvent option) \<times> Store" where
  "EventModel_update updateEventSchema db eventId event =
     (case updateEventSchema event of
        Inl issues \<Rightarrow> (Inl (Error ''Invalid update data''), db)
      | Inr validatedData \<Rightarrow>
          (case Event_findByIdAndUpdate db eventId validatedData of
             (Inl err, db') \<Rightarrow> (Inl (Error ''Failed to update event''), db')
           | (Inr updatedEvent, db') \<Rightarrow> (Inr updatedEvent, db')))"

definition EventModel_delete :: "Store \<Rightarrow> ObjectId \<Rightarrow> (Error + unit) \<times> Store" where
  "EventModel_delete db eventId =
     (case Event_findByIdAndDelete db eventId of
        (Inl err, db') \<Rightarrow> (Inl (Error ''Failed to delete event''), db')
      | (Inr _, db') \<Rightarrow> (Inr (), db'))"

definition EventModel_findById :: "Store \<Rightarrow> ObjectId \<Rightarrow> (Error + IEvent option) \<times> Store" where
  "EventModel_findById db i =
     (case Event_findOne db i of
        (Inl err, db') \<Rightarrow> (Inl (Error ''Failed to find event''), db')
      | (Inr None, db') \<Rightarrow> (Inr None, db')
      | (Inr (Some event), db') \<Rightarrow> (Inr (Some event), db'))"

definition EventModel_findAll :: "Store \<Rightarrow> (Error + IEvent list) \<times> Store" where
  "EventModel_findAll db =
     (case Event_find_sort_date_desc db of
        (Inl err, db') \<Rightarrow> (Inl (Error ''Failed to fetch events''), db')
      | (Inr events, db') \<Rightarrow> (Inr events, db'))"

section \<open>The validation schemas\<close>

text \<open>
  Modelled from the spec: \<^verbatim>\<open>createEventSchema\<close> of the module \<^verbatim>\<open>types/event.types\<close>, which
  is missing. The rules are those of the data model: a title of 1
  to 100 characters, a non-empty description, a capacity of at least 1 and a skill level
  of the allowed set; the failure enumerates every violated field.
\<close>

definition createEventIssues :: "string list \<Rightarrow> EventFields \<Rightarrow> ZodError" where
  "createEventIssues SKILL_LEVELS d =
     (if 1 \<le> length (title d) \<and> length (title d) \<le> 100 then []
      else [''title: must be between 1 and 100 characters'']) @
     (if description d \<noteq> [] then [] else [''description: must not be empty'']) @
     (if 1 \<le> capacity d then [] else [''capacity: must be at least 1'']) @
     (case skillLevel d of
        None \<Rightarrow> []
      | Some l \<Rightarrow> if l \<in> set SKILL_LEVELS then [] else [''skillLevel: not an allowed value''])"

text \<open>
  Modelled from the spec: \<^verbatim>\<open>createEventSchema.parse\<close>, the payload or the failure that
  enumerates the violations.
\<close>

definition createEventSchema_spec :: "string list \<Rightarrow> EventFields \<Rightarrow> ZodError + EventFields" where
  "createEventSchema_spec SKILL_LEVELS d =
     (if createEventIssues SKILL_LEVELS d = [] then Inr d
      else Inl (createEventIssues SKILL_LEVELS d))"

text \<open>
  Modelled from the spec: \<^verbatim>\<open>updateEventSchema\<close> of the same missing module. Every field is
  optional, and a field that is present obeys the rule it has in the create schema.
\<close>

definition updateEventIssues :: "string list \<Rightarrow> UpdateEventRequest \<Rightarrow> ZodError" where
  "updateEventIssues SKILL_LEVELS u =
     (case u_title u of
        None \<Rightarrow> []
      | Some t \<Rightarrow> if 1 \<le> length t \<and> length t \<le> 100 then []
                  else [''title: must be between 1 and 100 characters'']) @
     (case u_description u of
        None \<Rightarrow> []
      | Some t \<Rightarrow> if t \<noteq> [] then [] else [''description: must not be empty'']) @
     (case u_capacity u of
        None \<Rightarrow> []
      | Some c \<Rightarrow> if 1 \<le> c then [] else [''capacity: must be at least 1'']) @
     (case u_skillLevel u of
        None \<Rightarrow> []
      | Some l \<Rightarrow> if l \<in> set SKILL_LEVELS then [] else [''skillLevel: not an allowed value''])"

text \<open>
  Modelled from the spec: \<^verbatim>\<open>updateEventSchema.parse\<close>, the payload or the failure that
  enumerates the violations.
\<close>

definition updateEventSchema_spec ::
  "string list \<Rightarrow> UpdateEventRequest \<Rightarrow> ZodError + UpdateEventRequest" where
  "updateEventSchema_spec SKILL_LEVELS u =
     (if updateEventIssues SKILL_LEVELS u = [] then Inr u
      else Inl (updateEventIssues SKILL_LEVELS u))"

section \<open>The user gateway\<close>

text \<open>
  Modelled from the spec: the user record of the data model and the profile update with
  every field optional (the module of the user types is missing), and the collection of
  the users, with the call of the driver that the gateway makes.
\<close>

record IUser =
  user_id :: ObjectId
  email :: string
  name :: string
  googleId :: "string option"
  age :: "int option"
  bio :: "string option"
  profilePicture :: "string option"
  user_location :: "string option"
  user_latitude :: "real option"
  user_longitude :: "real option"
  user_skillLevel :: "string option"

record UpdateProfileRequest =
  p_name :: "string option"
  p_age :: "int option"
  p_bio :: "string option"
  p_location :: "string option"
  p_latitude :: "real option"
  p_longitude :: "real option"
  p_profilePicture :: "string option"
  p_skillLevel :: "string option"

record UserStore =
  users :: "IUser list"
  users_connected :: bool

definition lookupUser :: "UserStore \<Rightarrow> ObjectId \<Rightarrow> IUser option" where
  "lookupUser db i = find (\<lambda>x. user_id x = i) (users db)"

definition applyProfile :: "UpdateProfileRequest \<Rightarrow> IUser \<Rightarrow> IUser" where
  "applyProfile u x = x\<lparr>
     name := (case p_name u of None \<Rightarrow> name x | Some v \<Rightarrow> v),
     age := (case p_age u of None \<Rightarrow> age x | Some v \<Rightarrow> Some v),
     bio := (case p_bio u of None \<Rightarrow> bio x | Some v \<Rightarrow> Some v),
     profilePicture := (case p_profilePicture u of None \<Rightarrow> profilePicture x | Some v \<Rightarrow> Some v),
     user_location := (case p_location u of None \<Rightarrow> user_location x | Some v \<Rightarrow> Some v),
     user_latitude := (case p_latitude u of None \<Rightarrow> user_latitude x | Some v \<Rightarrow> Some v),
     user_longitude := (case p_longitude u of None \<Rightarrow> user_longitude x | Some v \<Rightarrow> Some v),
     user_skillLevel := (case p_skillLevel u of None \<Rightarrow> user_skillLevel x | Some v \<Rightarrow> Some v)\<rparr>"

definition User_findByIdAndUpdate ::
  "UserStore \<Rightarrow> ObjectId \<Rightarrow> UpdateProfileRequest \<Rightarrow> (MongoError + IUser option) \<times> UserStore" where
  "User_findByIdAndUpdate db i u =
     (if \<not> users_connected db then (Inl ConnectionError, db)
      else (case lookupUser db i of
              None \<Rightarrow> (Inr None, db)
            | Some x \<Rightarrow>
                (Inr (Some (applyProfile u x)),
                 db\<lparr>users := map (\<lambda>y. if user_id y = i then applyProfile u y else y) (users db)\<rparr>)))"

text \<open>The error kinds of the specification, for the operations modelled from it.\<close>

datatype DomainError = ValidationError | PersistenceError string

text \<open>
  Modelled from the spec: \<^verbatim>\<open>UserModel.update\<close>, the user instance of the gateway pattern;
  only its tests are present. It validates the payload against the update schema
  (a parameter), applies the fields provided to the record with the identifier, returns
  the updated record or null, and raises the persistence error with the message of the
  entity when the store fails.
\<close>

definition UserModel_update ::
  "(UpdateProfileRequest \<Rightarrow> ZodError + UpdateProfileRequest) \<Rightarrow> UserStore \<Rightarrow> ObjectId
     \<Rightarrow> UpdateProfileRequest \<Rightarrow> (DomainError + IUser option) \<times> UserStore" where
  "UserModel_update updateProfileSchema db userId user =
     (case updateProfileSchema user of
        Inl issues \<Rightarrow> (Inl ValidationError, db)
      | Inr validatedData \<Rightarrow>
          (case User_findByIdAndUpdate db userId validatedData of
             (Inl err, db') \<Rightarrow> (Inl (PersistenceError ''Failed to update user''), db')
           | (Inr updatedUser, db') \<Rightarrow> (Inr updatedUser, db')))"

section \<open>The route handlers of the events\<close>

text \<open>
  A response is a status with the event under \<^verbatim>\<open>data.event\<close> (the text of a success
  message is not fixed by the specification), or a status with a failure message.
\<close>

datatype Response = Success nat "IEvent option" | Failure nat string

text \<open>
  Modelled from the spec: the error translation layer (\<^verbatim>\<open>errorHandler\<close>, which is
  missing): an error that no handler caught becomes a 500 with the message of the error,
  or with a generic message when it has none.
\<close>

definition errorHandler :: "Error \<Rightarrow> Response" where
  "errorHandler err =
     (case err of Error m \<Rightarrow> Failure 500 (if m = [] then ''Internal server error'' else m))"

text \<open>
  Modelled from the spec: the update that join and leave persist, the attendee list alone.
\<close>

definition attendeesOnly :: "ObjectId list \<Rightarrow> UpdateEventRequest" where
  "attendeesOnly xs = \<lparr>u_title = None, u_description = None, u_date = None, u_capacity = None,
     u_skillLevel = None, u_location = None, u_latitude = None, u_longitude = None,
     u_attendees = Some xs, u_photo = None\<rparr>"

text \<open>
  Modelled from the spec: \<^verbatim>\<open>join(eventId, userId)\<close> of the event controller, which is
  missing. It loads the event, checks membership and capacity, appends the user
  and persists through \<^verbatim>\<open>update\<close>. Requests are not serialised: \<open>env\<close> is what the
  other requests do to the store between the load and the update.
\<close>

definition joinEvent ::
  "(UpdateEventRequest \<Rightarrow> ZodError + UpdateEventRequest) \<Rightarrow> (Store \<Rightarrow> Store) \<Rightarrow> Store
     \<Rightarrow> ObjectId \<Rightarrow> ObjectId \<Rightarrow> Response \<times> Store" where
  "joinEvent updateEventSchema env db eventId userId =
     (case EventModel_findById db eventId of
        (Inl err, db1) \<Rightarrow> (errorHandler err, db1)
      | (Inr None, db1) \<Rightarrow> (Failure 404 ''Event not found'', db1)
      | (Inr (Some event), db1) \<Rightarrow>
          if userId \<in> set (attendees event)
          then (Failure 400 ''User already joined the event'', db1)
          else if capacity event \<le> int (length (attendees event))
          then (Failure 400 ''Event is at full capacity'', db1)
          else (case EventModel_update updateEventSchema (env db1) eventId
                       (attendeesOnly (attendees event @ [userId])) of
                  (Inl err, db2) \<Rightarrow> (errorHandler err, db2)
                | (Inr None, db2) \<Rightarrow> (Failure 500 ''Failed to update event'', db2)
                | (Inr (Some updated), db2) \<Rightarrow> (Success 200 (Some updated), db2)))"

text \<open>
  Modelled from the spec: \<^verbatim>\<open>leave(eventId, userId)\<close> of the same controller: it loads the
  event, checks membership, removes the user and persists, with the handling of a
  vanished record that join has.
\<close>

definition leaveEvent ::
  "(UpdateEventRequest \<Rightarrow> ZodError + UpdateEventRequest) \<Rightarrow> (Store \<Rightarrow> Store) \<Rightarrow> Store
     \<Rightarrow> ObjectId \<Rightarrow> ObjectId \<Rightarrow> Response \<times> Store" where
  "leaveEvent updateEventSchema env db eventId userId =
     (case EventModel_findById db eventId of
        (Inl err, db1) \<Rightarrow> (errorHandler err, db1)
      | (Inr None, db1) \<Rightarrow> (Failure 404 ''Event not found'', db1)
      | (Inr (Some event), db1) \<Rightarrow>
          if userId \<notin> set (attendees event)
          then (Failure 400 ''User is not an attendee of the event'', db1)
          else (case EventModel_update updateEventSchema (env db1) eventId
                       (attendeesOnly (filter (\<lambda>a. a \<noteq> userId) (attendees event))) of
                  (Inl err, db2) \<Rightarrow> (errorHandler err, db2)
                | (Inr None, db2) \<Rightarrow> (Failure 500 ''Failed to update event'', db2)
                | (Inr (Some updated), db2) \<Rightarrow> (Success 200 (Some updated), db2)))"

text \<open>
  Modelled from the spec: the handlers of \<^verbatim>\<open>GET /events/:id\<close> and
  \<^verbatim>\<open>DELETE /events/:id\<close>, which are missing. The path parameter is a string; the
  test of a well-formed object identifier belongs to the driver and is a parameter.
\<close>

definition getEventById :: "(string \<Rightarrow> bool) \<Rightarrow> Store \<Rightarrow> string \<Rightarrow> Response \<times> Store" where
  "getEventById isValidObjectId db idParam =
     (if \<not> isValidObjectId idParam then (Failure 400 ''Invalid event id'', db)
      else (case EventModel_findById db idParam of
              (Inl err, db1) \<Rightarrow> (errorHandler err, db1)
            | (Inr None, db1) \<Rightarrow> (Failure 404 ''Event not found'', db1)
            | (Inr (Some event), db1) \<Rightarrow> (Success 200 (Some event), db1)))"

text \<open>
  Modelled from the spec: the handler of \<^verbatim>\<open>DELETE /events/:id\<close>: the same test of the
  identifier, then the load (404 when absent), then the removal.
\<close>

definition deleteEvent :: "(string \<Rightarrow> bool) \<Rightarrow> Store \<Rightarrow> string \<Rightarrow> Response \<times> Store" where
  "deleteEvent isValidObjectId db idParam =
     (if \<not> isValidObjectId idParam then (Failure 400 ''Invalid event id'', db)
      else (case EventModel_findById db idParam of
              (Inl err, db1) \<Rightarrow> (errorHandler err, db1)
            | (Inr None, db1) \<Rightarrow> (Failure 404 ''Event not found'', db1)
            | (Inr (Some event), db1) \<Rightarrow>
                (case EventModel_delete db1 idParam of
                   (Inl err, db2) \<Rightarrow> (errorHandler err, db2)
                 | (Inr _, db2) \<Rightarrow> (Success 200 None, db2))))"

text \<open>An identifier of 24 hexadecimal digits, the form the tests generate.\<close>

definition isHexString24 :: "string \<Rightarrow> bool" where
  "isHexString24 s \<longleftrightarrow> length s = 24 \<and> list_all (\<lambda>c. c \<in> set ''0123456789abcdefABCDEF'') s"

section \<open>The wrapper \<^verbatim>\<open>asyncHandler\<close>\<close>

text \<open>
  A call either returns a value or throws. What a handler returns is a promise or not
  (\<^verbatim>\<open>result instanceof Promise\<close>); a promise is modelled by how it settles, if it does.
  The world \<open>'w\<close> is everything the handler and \<^verbatim>\<open>next\<close> act on (the response
  included); the world a handler returns holds its effects up to the settlement of its
  promise. A rejection that no callback was attached to is reported as unhandled.
\<close>

datatype ('e, 'a) Completion = Normal 'a | Throw 'e

datatype 'e Promise = Fulfilled | Rejected 'e | Pending

datatype 'e Returned = APromise "'e Promise" | NotAPromise

type_synonym ('e, 'w) NextFunction = "'e \<Rightarrow> 'w \<Rightarrow> ('e, unit) Completion \<times> 'w"

record ('e, 'w) Outcome =
  completion :: "('e, unit) Completion"
  unhandled :: "'e list"
  world :: 'w

definition asyncHandler ::
  "('req \<Rightarrow> ('e, 'w) NextFunction \<Rightarrow> 'w \<Rightarrow> ('e, 'e Returned) Completion \<times> 'w)
     \<Rightarrow> 'req \<Rightarrow> ('e, 'w) NextFunction \<Rightarrow> 'w \<Rightarrow> ('e, 'w) Outcome" where
  "asyncHandler fn req next w =
     (case fn req next w of
        (Throw e, w1) \<Rightarrow> \<lparr>completion = Throw e, unhandled = [], world = w1\<rparr>
      | (Normal NotAPromise, w1) \<Rightarrow> \<lparr>completion = Normal (), unhandled = [], world = w1\<rparr>
      | (Normal (APromise result), w1) \<Rightarrow>
          (case result of
             Rejected error \<Rightarrow>
               (case next error w1 of
                  (Normal _, w2) \<Rightarrow> \<lparr>completion = Normal (), unhandled = [], world = w2\<rparr>
                | (Throw e2, w2) \<Rightarrow> \<lparr>completion = Normal (), unhandled = [e2], world = w2\<rparr>)
           | _ \<Rightarrow> \<lparr>completion = Normal (), unhandled = [], world = w1\<rparr>))"

section \<open>Example data\<close>

text \<open>Concrete events and stores, on which the theorems below are evaluated.\<close>

definition exampleFields :: "string \<Rightarrow> int \<Rightarrow> int \<Rightarrow> ObjectId list \<Rightarrow> EventFields" where
  "exampleFields t d c as = \<lparr>title = t, description = ''D'', date = d, capacity = c,
     skillLevel = None, location = None, latitude = None, longitude = None,
     createdBy = ''U1'', attendees = as, photo = None\<rparr>"

definition exampleEvent :: "ObjectId \<Rightarrow> int \<Rightarrow> int \<Rightarrow> ObjectId list \<Rightarrow> IEvent" where
  "exampleEvent i d c as = withId i (exampleFields ''T'' d c as)"

definition exampleStore :: "IEvent list \<Rightarrow> Store" where
  "exampleStore es = \<lparr>docs = es, connected = True, calls = []\<rparr>"

definition exampleLevels :: "string list" where
  "exampleLevels = [''Beginner'', ''Intermediate'', ''Expert'']"

definition exampleUser :: "ObjectId \<Rightarrow> IUser" where
  "exampleUser i = \<lparr>user_id = i, email = ''test@example.com'', name = ''Test User'',
     googleId = None, age = None, bio = None, profilePicture = None, user_location = None,
     user_latitude = None, user_longitude = None, user_skillLevel = None\<rparr>"

definition exampleProfile :: UpdateProfileRequest where
  "exampleProfile = \<lparr>p_name = Some ''Updated Name'', p_age = Some 30, p_bio = None,
     p_location = None, p_latitude = None, p_longitude = None, p_profilePicture = None,
     p_skillLevel = None\<rparr>"

definition exampleUserStore :: "IUser list \<Rightarrow> bool \<Rightarrow> UserStore" where
  "exampleUserStore us up = \<lparr>users = us, users_connected = up\<rparr>"

text \<open>Another request that removes every document between a load and an update.\<close>

definition dropAll :: "Store \<Rightarrow> Store" where
  "dropAll s = s\<lparr>docs := []\<rparr>"

text \<open>A \<^verbatim>\<open>next\<close> that records the errors it is given, and two handlers.\<close>

definition exampleNext :: "(string, string list) NextFunction" where
  "exampleNext e seen = (Normal (), seen @ [e])"

definition rejectingHandler ::
  "unit \<Rightarrow> (string, string list) NextFunction \<Rightarrow> string list
     \<Rightarrow> (string, string Returned) Completion \<times> string list" where
  "rejectingHandler req next w = (Normal (APromise (Rejected ''Database error'')), w)"

definition throwingHandler ::
  "unit \<Rightarrow> (string, string list) NextFunction \<Rightarrow> string list
     \<Rightarrow> (string, string Returned) Completion \<times> string list" where
  "throwingHandler req next w = (Throw ''Invalid input'', w)"

section \<open>Validation failures of the gateway\<close>

lemma create_rejected_by_schema:
  "createEventSchema d = Inl issues \<Longrightarrow>
     EventModel_create createEventSchema L newId db d = (Inl (Error ''Invalid update data''), db)"
  by (simp add: EventModel_create_def)

lemma update_rejected_by_schema:
  "updateEventSchema u = Inl issues \<Longrightarrow>
     EventModel_update updateEventSchema db i u = (Inl (Error ''Invalid update data''), db)"
  by (simp add: EventModel_update_def)

lemma create_failed_iff:
  "fst (EventModel_create createEventSchema L newId db d) = Inl (Error ''Failed to create event'')
     \<longleftrightarrow> (\<exists>v m. createEventSchema d = Inr v \<and> fst (Event_create L newId db v) = Inl m)"
  by (auto simp: EventModel_create_def split: sum.splits prod.splits)

lemma violating_create_issues:
  "title d = [] \<or> capacity d \<le> 0 \<or> 100 < length (title d) \<or> description d = [] \<Longrightarrow>
     createEventIssues L d \<noteq> []"
  by (auto simp: createEventIssues_def)

lemma violating_update_issues:
  "u_title u = Some [] \<or> (\<exists>c. u_capacity u = Some c \<and> c \<le> 0) \<or>
   (\<exists>t. u_title u = Some t \<and> 100 < length t) \<or> u_description u = Some [] \<Longrightarrow>
     updateEventIssues L u \<noteq> []"
  by (auto simp: updateEventIssues_def)

text \<open>
  Claim C3. A payload that violates a rule of the schema (an empty title, a capacity of at
  most 0, a title of more than 100 characters, an empty description) makes
  \<^verbatim>\<open>EventModel.create\<close> and \<^verbatim>\<open>EventModel.update\<close> raise the validation error (the
  error with the message "Invalid update data") and leaves the store as it was, its record
  of calls included: no call reached it.
\<close>

theorem invalid_payload_fails_closed:
  "(title d = [] \<or> capacity d \<le> 0 \<or> 100 < length (title d) \<or> description d = [] \<longrightarrow>
      EventModel_create (createEventSchema_spec L) L newId db d
        = (Inl (Error ''Invalid update data''), db)) \<and>
   (u_title u = Some [] \<or> (\<exists>c. u_capacity u = Some c \<and> c \<le> 0) \<or>
    (\<exists>t. u_title u = Some t \<and> 100 < length t) \<or> u_description u = Some [] \<longrightarrow>
      EventModel_update (updateEventSchema_spec L) db i u
        = (Inl (Error ''Invalid update data''), db))"
proof (intro conjI impI)
  assume "title d = [] \<or> capacity d \<le> 0 \<or> 100 < length (title d) \<or> description d = []"
  then have "createEventIssues L d \<noteq> []" by (rule violating_create_issues)
  then show "EventModel_create (createEventSchema_spec L) L newId db d
        = (Inl (Error ''Invalid update data''), db)"
    by (simp add: EventModel_create_def createEventSchema_spec_def)
next
  assume "u_title u = Some [] \<or> (\<exists>c. u_capacity u = Some c \<and> c \<le> 0) \<or>
    (\<exists>t. u_title u = Some t \<and> 100 < length t) \<or> u_description u = Some []"
  then have "updateEventIssues L u \<noteq> []" by (rule violating_update_issues)
  then show "EventModel_update (updateEventSchema_spec L) db i u
        = (Inl (Error ''Invalid update data''), db)"
    by (simp add: EventModel_update_def updateEventSchema_spec_def)
qed

theorem invalid_payload_fails_closed_witness:
  "capacity (exampleFields ''Valid Title'' 0 (- 5) []) \<le> 0 \<and>
   EventModel_create (createEventSchema_spec exampleLevels) exampleLevels ''e9''
       (exampleStore [exampleEvent ''e1'' 10 2 []]) (exampleFields ''Valid Title'' 0 (- 5) [])
     = (Inl (Error ''Invalid update data''), exampleStore [exampleEvent ''e1'' 10 2 []]) \<and>
   u_title ((attendeesOnly [])\<lparr>u_title := Some []\<rparr>) = Some [] \<and>
   EventModel_update (updateEventSchema_spec exampleLevels)
       (exampleStore [exampleEvent ''e1'' 10 2 []]) ''e1'' ((attendeesOnly [])\<lparr>u_title := Some []\<rparr>)
     = (Inl (Error ''Invalid update data''), exampleStore [exampleEvent ''e1'' 10 2 []])"
  using invalid_payload_fails_closed [where d = "exampleFields ''Valid Title'' 0 (- 5) []"
      and u = "(attendeesOnly [])\<lparr>u_title := Some []\<rparr>" and L = exampleLevels
      and newId = "''e9''" and db = "exampleStore [exampleEvent ''e1'' 10 2 []]" and i = "''e1''"]
  by (simp add: exampleFields_def attendeesOnly_def)

text \<open>
  Claim C9. A payload that the create schema rejects makes \<^verbatim>\<open>EventModel.create\<close> raise
  the error with the message "Invalid update data", the message of the update path, and
  not a message of its own; it raises "Failed to create event" exactly when the schema
  accepted the payload and the call to the store failed.
\<close>

theorem create_invalid_message:
  "(createEventSchema d = Inl issues \<longrightarrow>
      EventModel_create createEventSchema L newId db d = (Inl (Error ''Invalid update data''), db)) \<and>
   (updateEventSchema u = Inl issues' \<longrightarrow>
      EventModel_update updateEventSchema db i u = (Inl (Error ''Invalid update data''), db)) \<and>
   (fst (EventModel_create createEventSchema L newId db d) = Inl (Error ''Failed to create event'')
      \<longleftrightarrow> (\<exists>v m. createEventSchema d = Inr v \<and> fst (Event_create L newId db v) = Inl m))"
proof (intro conjI impI)
  assume "createEventSchema d = Inl issues"
  then show "EventModel_create createEventSchema L newId db d
      = (Inl (Error ''Invalid update data''), db)"
    by (rule create_rejected_by_schema)
next
  assume "updateEventSchema u = Inl issues'"
  then show "EventModel_update updateEventSchema db i u
      = (Inl (Error ''Invalid update data''), db)"
    by (rule update_rejected_by_schema)
next
  show "fst (EventModel_create createEventSchema L newId db d)
        = Inl (Error ''Failed to create event'')
      \<longleftrightarrow> (\<exists>v m. createEventSchema d = Inr v \<and> fst (Event_create L newId db v) = Inl m)"
    by (rule create_failed_iff)
qed


theorem create_invalid_message_witness:
  "createEventSchema_spec exampleLevels (exampleFields [] 0 10 [])
     = Inl [''title: must be between 1 and 100 characters''] \<and>
   EventModel_create (createEventSchema_spec exampleLevels) exampleLevels ''e9''
       (exampleStore []) (exampleFields [] 0 10 [])
     = (Inl (Error ''Invalid update data''), exampleStore []) \<and>
   updateEventSchema_spec exampleLevels ((attendeesOnly [])\<lparr>u_title := Some []\<rparr>)
     = Inl [''title: must be between 1 and 100 characters''] \<and>
   EventModel_update (updateEventSchema_spec exampleLevels) (exampleStore []) ''e1''
       ((attendeesOnly [])\<lparr>u_title := Some []\<rparr>)
     = (Inl (Error ''Invalid update data''), exampleStore []) \<and>
   fst (EventModel_create (createEventSchema_spec exampleLevels) exampleLevels ''e9''
       ((exampleStore [])\<lparr>connected := False\<rparr>) (exampleFields ''T'' 0 10 []))
     = Inl (Error ''Failed to create event'')"
proof -
  have a: "createEventSchema_spec exampleLevels (exampleFields [] 0 10 [])
     = Inl [''title: must be between 1 and 100 characters'']"
    by (simp add: createEventSchema_spec_def createEventIssues_def exampleFields_def)
  have b: "updateEventSchema_spec exampleLevels ((attendeesOnly [])\<lparr>u_title := Some []\<rparr>)
     = Inl [''title: must be between 1 and 100 characters'']"
    by (simp add: updateEventSchema_spec_def updateEventIssues_def attendeesOnly_def)
  have c: "createEventSchema_spec exampleLevels (exampleFields ''T'' 0 10 [])
     = Inr (exampleFields ''T'' 0 10 [])"
    by (simp add: createEventSchema_spec_def createEventIssues_def exampleFields_def)
  have d: "fst (Event_create exampleLevels ''e9'' ((exampleStore [])\<lparr>connected := False\<rparr>)
      (exampleFields ''T'' 0 10 [])) = Inl ConnectionError"
    by (simp add: Event_create_def exampleStore_def Let_def)
  note t1 = create_invalid_message [where createEventSchema = "createEventSchema_spec exampleLevels"
      and d = "exampleFields [] 0 10 []"
      and issues = "[''title: must be between 1 and 100 characters'']"
      and L = exampleLevels and newId = "''e9''" and db = "exampleStore []"
      and updateEventSchema = "updateEventSchema_spec exampleLevels"
      and u = "(attendeesOnly [])\<lparr>u_title := Some []\<rparr>"
      and issues' = "[''title: must be between 1 and 100 characters'']" and i = "''e1''"]
  note t2 = create_invalid_message [where createEventSchema = "createEventSchema_spec exampleLevels"
      and d = "exampleFields ''T'' 0 10 []" and L = exampleLevels and newId = "''e9''"
      and db = "(exampleStore [])\<lparr>connected := False\<rparr>"]
  have ex: "\<exists>v m. createEventSchema_spec exampleLevels (exampleFields ''T'' 0 10 []) = Inr v \<and>
      fst (Event_create exampleLevels ''e9'' ((exampleStore [])\<lparr>connected := False\<rparr>) v) = Inl m"
    using c d by (intro exI conjI)
  note 1 = t1 [THEN conjunct1, THEN mp, OF a]
  note 2 = t1 [THEN conjunct2, THEN conjunct1, THEN mp, OF b]
  note 3 = t2 [THEN conjunct2, THEN conjunct2, THEN iffD2, OF ex]
  from a 1 b 2 3 show ?thesis by (intro conjI)
qed

section \<open>Updating\<close>

lemma update_accepted:
  "updateEventSchema u = Inr v \<Longrightarrow>
     EventModel_update updateEventSchema db i u =
       (case Event_findByIdAndUpdate db i v of
          (Inl err, db') \<Rightarrow> (Inl (Error ''Failed to update event''), db')
        | (Inr r, db') \<Rightarrow> (Inr r, db'))"
  by (simp add: EventModel_update_def)

lemma findByIdAndUpdate_missing:
  "connected db \<Longrightarrow> lookup db i = None \<Longrightarrow>
     Event_findByIdAndUpdate db i v = (Inr None, called (CallFindByIdAndUpdate i) db)"
  by (simp add: Event_findByIdAndUpdate_def Let_def)

lemma findByIdAndUpdate_fails_iff:
  "(\<exists>m. fst (Event_findByIdAndUpdate db i v) = Inl m) \<longleftrightarrow> \<not> connected db"
  by (auto simp: Event_findByIdAndUpdate_def Let_def split: option.splits)

lemma user_update_accepted:
  "updateProfileSchema p = Inr q \<Longrightarrow>
     UserModel_update updateProfileSchema udb j p =
       (case User_findByIdAndUpdate udb j q of
          (Inl err, db') \<Rightarrow> (Inl (PersistenceError ''Failed to update user''), db')
        | (Inr r, db') \<Rightarrow> (Inr r, db'))"
  by (simp add: UserModel_update_def)

text \<open>
  Claim C5. For a payload that the update schema accepts, \<^verbatim>\<open>update\<close> returns null when no
  record has the identifier and raises nothing then; the only error it raises is the
  persistence error ("Failed to update event", "Failed to update user"), and it raises it
  exactly when the call to the store fails. The event gateway is the code of
  \<^verbatim>\<open>EventModel\<close>; the user gateway is the one modelled from the specification.
\<close>

theorem update_missing_record_returns_null:
  assumes "updateEventSchema u = Inr v" and "updateProfileSchema p = Inr q"
  shows
  "(connected db \<and> lookup db i = None \<longrightarrow>
      EventModel_update updateEventSchema db i u
        = (Inr None, called (CallFindByIdAndUpdate i) db)) \<and>
   (\<forall>e. fst (EventModel_update updateEventSchema db i u) = Inl e \<longrightarrow>
      e = Error ''Failed to update event'') \<and>
   (fst (EventModel_update updateEventSchema db i u) = Inl (Error ''Failed to update event'')
      \<longleftrightarrow> (\<exists>m. fst (Event_findByIdAndUpdate db i v) = Inl m)) \<and>
   (users_connected udb \<and> lookupUser udb j = None \<longrightarrow>
      UserModel_update updateProfileSchema udb j p = (Inr None, udb)) \<and>
   (\<forall>e. fst (UserModel_update updateProfileSchema udb j p) = Inl e \<longrightarrow>
      e = PersistenceError ''Failed to update user'') \<and>
   (fst (UserModel_update updateProfileSchema udb j p)
        = Inl (PersistenceError ''Failed to update user'')
      \<longleftrightarrow> (\<exists>m. fst (User_findByIdAndUpdate udb j q) = Inl m))"
proof (intro conjI allI impI)
  assume "connected db \<and> lookup db i = None"
  then show "EventModel_update updateEventSchema db i u
        = (Inr None, called (CallFindByIdAndUpdate i) db)"
    using assms(1) by (simp add: update_accepted findByIdAndUpdate_missing)
next
  fix e assume "fst (EventModel_update updateEventSchema db i u) = Inl e"
  then show "e = Error ''Failed to update event''"
    using assms(1) by (auto simp: update_accepted split: prod.splits sum.splits)
next
  show "fst (EventModel_update updateEventSchema db i u) = Inl (Error ''Failed to update event'')
      \<longleftrightarrow> (\<exists>m. fst (Event_findByIdAndUpdate db i v) = Inl m)"
    using assms(1) by (auto simp: update_accepted split: prod.splits sum.splits)
next
  assume "users_connected udb \<and> lookupUser udb j = None"
  then show "UserModel_update updateProfileSchema udb j p = (Inr None, udb)"
    using assms(2) by (simp add: user_update_accepted User_findByIdAndUpdate_def)
next
  fix e assume "fst (UserModel_update updateProfileSchema udb j p) = Inl e"
  then show "e = PersistenceError ''Failed to update user''"
    using assms(2) by (auto simp: user_update_accepted split: prod.splits sum.splits)
next
  show "fst (UserModel_update updateProfileSchema udb j p)
        = Inl (PersistenceError ''Failed to update user'')
      \<longleftrightarrow> (\<exists>m. fst (User_findByIdAndUpdate udb j q) = Inl m)"
    using assms(2) by (auto simp: user_update_accepted split: prod.splits sum.splits)
qed

theorem update_missing_record_returns_null_witness:
  "updateEventSchema_spec exampleLevels (attendeesOnly [''U2'']) = Inr (attendeesOnly [''U2'']) \<and>
   connected (exampleStore [exampleEvent ''e1'' 10 2 []]) \<and>
   lookup (exampleStore [exampleEvent ''e1'' 10 2 []]) ''e7'' = None \<and>
   EventModel_update (updateEventSchema_spec exampleLevels)
       (exampleStore [exampleEvent ''e1'' 10 2 []]) ''e7'' (attendeesOnly [''U2''])
     = (Inr None, called (CallFindByIdAndUpdate ''e7'') (exampleStore [exampleEvent ''e1'' 10 2 []])) \<and>
   lookupUser (exampleUserStore [exampleUser ''u1''] True) ''u7'' = None \<and>
   UserModel_update Inr (exampleUserStore [exampleUser ''u1''] True) ''u7'' exampleProfile
     = (Inr None, exampleUserStore [exampleUser ''u1''] True) \<and>
   fst (EventModel_update (updateEventSchema_spec exampleLevels)
       ((exampleStore [exampleEvent ''e1'' 10 2 []])\<lparr>connected := False\<rparr>) ''e7''
       (attendeesOnly [''U2''])) = Inl (Error ''Failed to update event'') \<and>
   fst (UserModel_update Inr (exampleUserStore [exampleUser ''u1''] False) ''u7'' exampleProfile)
     = Inl (PersistenceError ''Failed to update user'')"
proof -
  have a: "updateEventSchema_spec exampleLevels (attendeesOnly [''U2'']) = Inr (attendeesOnly [''U2''])"
    by (simp add: updateEventSchema_spec_def updateEventIssues_def attendeesOnly_def)
  have b: "(Inr :: UpdateProfileRequest \<Rightarrow> ZodError + UpdateProfileRequest) exampleProfile
     = Inr exampleProfile" by (rule refl)
  have c1: "connected (exampleStore [exampleEvent ''e1'' 10 2 []])"
    by (simp add: exampleStore_def)
  have c2: "lookup (exampleStore [exampleEvent ''e1'' 10 2 []]) ''e7'' = None"
    by (simp add: exampleStore_def lookup_def exampleEvent_def withId_def)
  have d1: "users_connected (exampleUserStore [exampleUser ''u1''] True)"
    by (simp add: exampleUserStore_def)
  have d2: "lookupUser (exampleUserStore [exampleUser ''u1''] True) ''u7'' = None"
    by (simp add: exampleUserStore_def lookupUser_def exampleUser_def)
  have e: "\<exists>m. fst (Event_findByIdAndUpdate ((exampleStore [exampleEvent ''e1'' 10 2 []])\<lparr>connected := False\<rparr>)
      ''e7'' (attendeesOnly [''U2''])) = Inl m"
    by (simp add: Event_findByIdAndUpdate_def Let_def exampleStore_def)
  have f: "\<exists>m. fst (User_findByIdAndUpdate (exampleUserStore [exampleUser ''u1''] False) ''u7''
      exampleProfile) = Inl m"
    by (simp add: User_findByIdAndUpdate_def exampleUserStore_def)
  note t1 = update_missing_record_returns_null [where updateEventSchema = "updateEventSchema_spec exampleLevels"
      and u = "attendeesOnly [''U2'']" and v = "attendeesOnly [''U2'']"
      and updateProfileSchema = Inr and p = exampleProfile and q = exampleProfile
      and db = "exampleStore [exampleEvent ''e1'' 10 2 []]" and i = "''e7''"
      and udb = "exampleUserStore [exampleUser ''u1''] True" and j = "''u7''", OF a b]
  note t2 = update_missing_record_returns_null [where updateEventSchema = "updateEventSchema_spec exampleLevels"
      and u = "attendeesOnly [''U2'']" and v = "attendeesOnly [''U2'']"
      and updateProfileSchema = Inr and p = exampleProfile and q = exampleProfile
      and db = "(exampleStore [exampleEvent ''e1'' 10 2 []])\<lparr>connected := False\<rparr>" and i = "''e7''"
      and udb = "exampleUserStore [exampleUser ''u1''] False" and j = "''u7''", OF a b]
  note 1 = t1 [THEN conjunct1, THEN mp, OF conjI, OF c1 c2]
  note 2 = t1 [THEN conjunct2, THEN conjunct2, THEN conjunct2, THEN conjunct1, THEN mp,
      OF conjI, OF d1 d2]
  note 3 = t2 [THEN conjunct2, THEN conjunct2, THEN conjunct1, THEN iffD2, OF e]
  note 4 = t2 [THEN conjunct2, THEN conjunct2, THEN conjunct2, THEN conjunct2, THEN conjunct2,
      THEN iffD2, OF f]
  from a c1 c2 1 d2 2 3 4 show ?thesis by (intro conjI)
qed

section \<open>Deleting and listing\<close>

lemma delete_outcome:
  "EventModel_delete db i =
     (if connected db
      then (Inr (), (called (CallFindByIdAndDelete i) db)\<lparr>docs := filter (\<lambda>x. ident x \<noteq> i) (docs db)\<rparr>)
      else (Inl (Error ''Failed to delete event''), called (CallFindByIdAndDelete i) db))"
  by (simp add: EventModel_delete_def Event_findByIdAndDelete_def Let_def)

lemma findById_outcome:
  "EventModel_findById db i =
     (if connected db then (Inr (lookup db i), called (CallFindOne i) db)
      else (Inl (Error ''Failed to find event''), called (CallFindOne i) db))"
  by (simp add: EventModel_findById_def Event_findOne_def Let_def split: option.splits)

lemma find_filter_other: "find (\<lambda>e. ident e = i) (filter (\<lambda>x. ident x \<noteq> i) es) = None"
  by (induction es) auto

text \<open>
  Claim C6. While the store answers, \<^verbatim>\<open>delete\<close> removes the record with the identifier
  and raises nothing, whether the record is there or not: a second \<^verbatim>\<open>delete\<close> of the
  same identifier returns as the first and leaves the documents as they are, and
  \<^verbatim>\<open>findById\<close> returns null afterwards. The only error it raises is "Failed to delete
  event", and only when the call to the store fails.
\<close>

theorem delete_idempotent:
  "(connected db \<longrightarrow>
      fst (EventModel_delete db i) = Inr () \<and>
      docs (snd (EventModel_delete db i)) = filter (\<lambda>x. ident x \<noteq> i) (docs db) \<and>
      fst (EventModel_delete (snd (EventModel_delete db i)) i) = Inr () \<and>
      docs (snd (EventModel_delete (snd (EventModel_delete db i)) i))
        = docs (snd (EventModel_delete db i)) \<and>
      fst (EventModel_findById (snd (EventModel_delete db i)) i) = Inr None \<and>
      fst (EventModel_findById (snd (EventModel_delete (snd (EventModel_delete db i)) i)) i)
        = Inr None) \<and>
   (\<forall>e. fst (EventModel_delete db i) = Inl e \<longrightarrow>
      e = Error ''Failed to delete event'' \<and>
      (\<exists>m. fst (Event_findByIdAndDelete db i) = Inl m) \<and> \<not> connected db)"
  by (auto simp: delete_outcome findById_outcome called_def lookup_def find_filter_other
      Event_findByIdAndDelete_def Let_def split: if_splits)

theorem delete_idempotent_witness:
  "connected (exampleStore [exampleEvent ''e1'' 10 2 [], exampleEvent ''e2'' 20 2 []]) \<and>
   fst (EventModel_delete (exampleStore [exampleEvent ''e1'' 10 2 [], exampleEvent ''e2'' 20 2 []]) ''e1'')
     = Inr () \<and>
   docs (snd (EventModel_delete
       (exampleStore [exampleEvent ''e1'' 10 2 [], exampleEvent ''e2'' 20 2 []]) ''e1''))
     = [exampleEvent ''e2'' 20 2 []] \<and>
   fst (EventModel_delete (snd (EventModel_delete
       (exampleStore [exampleEvent ''e1'' 10 2 [], exampleEvent ''e2'' 20 2 []]) ''e1'')) ''e1'')
     = Inr ()"
  using delete_idempotent [where db = "exampleStore [exampleEvent ''e1'' 10 2 [], exampleEvent ''e2'' 20 2 []]"
      and i = "''e1''"]
  by (simp add: exampleStore_def exampleEvent_def withId_def)


lemma findAll_outcome:
  "EventModel_findAll db =
     (if connected db then (Inr (sort_key (\<lambda>e. - date e) (docs db)), called CallFind db)
      else (Inl (Error ''Failed to fetch events''), called CallFind db))"
  by (simp add: EventModel_findAll_def Event_find_sort_date_desc_def Let_def)

lemma sorted_desc_sort_key:
  "sorted_wrt (\<lambda>a b. date b \<le> date a) (sort_key (\<lambda>e. - date e) (es :: IEvent list))"
proof -
  have "sorted (map (\<lambda>e. - date e) (sort_key (\<lambda>e. - date e) es))"
    by (rule sorted_sort_key)
  then show ?thesis by (simp add: sorted_map)
qed

text \<open>
  Claim C7. \<^verbatim>\<open>findAll\<close> returns what the sorted query of the store returns: all the
  events of the collection, each as often as it is stored, latest date first. It raises
  the persistence error "Failed to fetch events", and no other, exactly when the query
  fails.
\<close>

theorem findAll_sorted_by_date_desc:
  "(\<forall>es. fst (Event_find_sort_date_desc db) = Inr es \<longrightarrow>
      fst (EventModel_findAll db) = Inr es \<and> mset es = mset (docs db) \<and>
      sorted_wrt (\<lambda>a b. date b \<le> date a) es) \<and>
   (\<forall>e. fst (EventModel_findAll db) = Inl e \<longrightarrow> e = Error ''Failed to fetch events'') \<and>
   (fst (EventModel_findAll db) = Inl (Error ''Failed to fetch events'')
      \<longleftrightarrow> (\<exists>m. fst (Event_find_sort_date_desc db) = Inl m))"
  by (auto simp: findAll_outcome Event_find_sort_date_desc_def Let_def sorted_desc_sort_key
      split: if_splits)

theorem findAll_sorted_by_date_desc_witness:
  "fst (EventModel_findAll (exampleStore
      [exampleEvent ''e1'' 10 2 [], exampleEvent ''e2'' 30 2 [], exampleEvent ''e3'' 20 2 []]))
     = Inr [exampleEvent ''e2'' 30 2 [], exampleEvent ''e3'' 20 2 [], exampleEvent ''e1'' 10 2 []] \<and>
   fst (EventModel_findAll ((exampleStore [exampleEvent ''e1'' 10 2 []])\<lparr>connected := False\<rparr>))
     = Inl (Error ''Failed to fetch events'')"
proof -
  have a: "fst (Event_find_sort_date_desc (exampleStore
      [exampleEvent ''e1'' 10 2 [], exampleEvent ''e2'' 30 2 [], exampleEvent ''e3'' 20 2 []]))
     = Inr [exampleEvent ''e2'' 30 2 [], exampleEvent ''e3'' 20 2 [], exampleEvent ''e1'' 10 2 []]"
    by (simp add: Event_find_sort_date_desc_def Let_def exampleStore_def exampleEvent_def
        withId_def exampleFields_def)
  have b: "\<exists>m. fst (Event_find_sort_date_desc
      ((exampleStore [exampleEvent ''e1'' 10 2 []])\<lparr>connected := False\<rparr>)) = Inl m"
    by (simp add: Event_find_sort_date_desc_def Let_def exampleStore_def)
  note t1 = findAll_sorted_by_date_desc [where db = "exampleStore
      [exampleEvent ''e1'' 10 2 [], exampleEvent ''e2'' 30 2 [], exampleEvent ''e3'' 20 2 []]"]
  note t2 = findAll_sorted_by_date_desc
      [where db = "(exampleStore [exampleEvent ''e1'' 10 2 []])\<lparr>connected := False\<rparr>"]
  note 1 = t1 [THEN conjunct1, THEN spec, THEN mp, OF a, THEN conjunct1]
  note 2 = t2 [THEN conjunct2, THEN conjunct2, THEN iffD2, OF b]
  from 1 2 show ?thesis by (intro conjI)
qed

section \<open>Joining and leaving\<close>

lemma applyUpdate_attendeesOnly: "applyUpdate (attendeesOnly xs) e = e\<lparr>attendees := xs\<rparr>"
  by (simp add: applyUpdate_def attendeesOnly_def)

lemma attendeesOnly_accepted:
  "updateEventSchema_spec L (attendeesOnly xs) = Inr (attendeesOnly xs)"
  by (simp add: updateEventSchema_spec_def updateEventIssues_def attendeesOnly_def)

lemma find_map_same_ident:
  "(\<And>x. ident (f x) = ident x) \<Longrightarrow>
     find (\<lambda>e. ident e = i) (map (\<lambda>x. if ident x = i then f x else x) es)
       = map_option f (find (\<lambda>e. ident e = i) es)"
  by (induction es) auto

lemma update_attendees_outcome:
  "connected db \<Longrightarrow> lookup db i = Some ev \<Longrightarrow>
     EventModel_update (updateEventSchema_spec L) db i (attendeesOnly xs) =
       (Inr (Some (ev\<lparr>attendees := xs\<rparr>)),
        (called (CallFindByIdAndUpdate i) db)
          \<lparr>docs := map (\<lambda>x. if ident x = i then x\<lparr>attendees := xs\<rparr> else x) (docs db)\<rparr>)"
  by (simp add: EventModel_update_def attendeesOnly_accepted Event_findByIdAndUpdate_def Let_def
      applyUpdate_attendeesOnly)

lemma lookup_after_attendees:
  "lookup (db\<lparr>docs := map (\<lambda>x. if ident x = i then x\<lparr>attendees := xs\<rparr> else x) (docs db')\<rparr>) i
     = map_option (\<lambda>x. x\<lparr>attendees := xs\<rparr>) (lookup db' i)"
  by (simp add: lookup_def find_map_same_ident)

lemma called_simps:
  "connected (called c db) = connected db" "docs (called c db) = docs db"
  "lookup (called c db) i = lookup db i"
  by (simp_all add: called_def lookup_def)


lemma join_not_found:
  "connected db \<Longrightarrow> lookup db eventId = None \<Longrightarrow>
     joinEvent S env db eventId userId
       = (Failure 404 ''Event not found'', called (CallFindOne eventId) db)"
  by (simp add: joinEvent_def findById_outcome)

lemma join_already:
  "connected db \<Longrightarrow> lookup db eventId = Some ev \<Longrightarrow> userId \<in> set (attendees ev) \<Longrightarrow>
     joinEvent S env db eventId userId
       = (Failure 400 ''User already joined the event'', called (CallFindOne eventId) db)"
  by (simp add: joinEvent_def findById_outcome)

lemma join_full:
  "connected db \<Longrightarrow> lookup db eventId = Some ev \<Longrightarrow> userId \<notin> set (attendees ev) \<Longrightarrow>
   capacity ev \<le> int (length (attendees ev)) \<Longrightarrow>
     joinEvent S env db eventId userId
       = (Failure 400 ''Event is at full capacity'', called (CallFindOne eventId) db)"
  by (simp add: joinEvent_def findById_outcome)


lemma join_success:
  assumes "connected db" and "lookup db eventId = Some ev"
    and "userId \<notin> set (attendees ev)" and "int (length (attendees ev)) < capacity ev"
  shows "joinEvent (updateEventSchema_spec L) (\<lambda>s. s) db eventId userId =
       (Success 200 (Some (ev\<lparr>attendees := attendees ev @ [userId]\<rparr>)),
        (called (CallFindByIdAndUpdate eventId) (called (CallFindOne eventId) db))
          \<lparr>docs := map (\<lambda>x. if ident x = eventId
                              then x\<lparr>attendees := attendees ev @ [userId]\<rparr> else x)
             (docs db)\<rparr>)"
proof -
  let ?db1 = "called (CallFindOne eventId) db"
  have c: "connected ?db1" and l: "lookup ?db1 eventId = Some ev" and d: "docs ?db1 = docs db"
    using assms(1,2) by (simp_all add: called_simps)
  have u: "EventModel_update (updateEventSchema_spec L) ?db1 eventId
             (attendeesOnly (attendees ev @ [userId])) =
       (Inr (Some (ev\<lparr>attendees := attendees ev @ [userId]\<rparr>)),
        (called (CallFindByIdAndUpdate eventId) ?db1)
          \<lparr>docs := map (\<lambda>x. if ident x = eventId then x\<lparr>attendees := attendees ev @ [userId]\<rparr> else x)
             (docs ?db1)\<rparr>)"
    using c l by (rule update_attendees_outcome)
  have f: "EventModel_findById db eventId = (Inr (Some ev), ?db1)"
    using assms(1,2) by (simp add: findById_outcome)
  have n: "\<not> capacity ev \<le> int (length (attendees ev))" using assms(4) by simp
  show ?thesis
    unfolding joinEvent_def f using assms(3) n by (simp add: u d)
qed


lemma exampleEvent_simps:
  "ident (exampleEvent i d c as) = i" "attendees (exampleEvent i d c as) = as"
  "capacity (exampleEvent i d c as) = c" "date (exampleEvent i d c as) = d"
  "(exampleEvent i d c as)\<lparr>attendees := bs\<rparr> = exampleEvent i d c bs"
  by (simp_all add: exampleEvent_def withId_def exampleFields_def)

lemma exampleStore_simps:
  "docs (exampleStore es) = es" "connected (exampleStore es)" "calls (exampleStore es) = []"
  by (simp_all add: exampleStore_def)

text \<open>
  Claim C1. With the store answering, \<^verbatim>\<open>join(eventId, userId)\<close> fails with 404 "Event not
  found" when no event has the identifier; else with 400 "User already joined the event"
  when the user is among the attendees; else with 400 "Event is at full capacity" when the
  attendees are at least as many as the capacity; and nothing is written in these cases.
  Otherwise, with no other request in between, the user is appended to the attendees and
  the event is stored so; a join at one below the capacity brings the attendees to the
  capacity.
\<close>

theorem join_outcomes:
  assumes "connected db"
  shows
  "(lookup db eventId = None \<longrightarrow>
      fst (joinEvent S env db eventId userId) = Failure 404 ''Event not found'' \<and>
      docs (snd (joinEvent S env db eventId userId)) = docs db) \<and>
   (\<forall>ev. lookup db eventId = Some ev \<and> userId \<in> set (attendees ev) \<longrightarrow>
      fst (joinEvent S env db eventId userId) = Failure 400 ''User already joined the event'' \<and>
      docs (snd (joinEvent S env db eventId userId)) = docs db) \<and>
   (\<forall>ev. lookup db eventId = Some ev \<and> userId \<notin> set (attendees ev) \<and>
         capacity ev \<le> int (length (attendees ev)) \<longrightarrow>
      fst (joinEvent S env db eventId userId) = Failure 400 ''Event is at full capacity'' \<and>
      docs (snd (joinEvent S env db eventId userId)) = docs db) \<and>
   (\<forall>ev. lookup db eventId = Some ev \<and> userId \<notin> set (attendees ev) \<and>
         int (length (attendees ev)) < capacity ev \<longrightarrow>
      fst (joinEvent (updateEventSchema_spec L) (\<lambda>s. s) db eventId userId)
        = Success 200 (Some (ev\<lparr>attendees := attendees ev @ [userId]\<rparr>)) \<and>
      docs (snd (joinEvent (updateEventSchema_spec L) (\<lambda>s. s) db eventId userId))
        = map (\<lambda>x. if ident x = eventId then x\<lparr>attendees := attendees ev @ [userId]\<rparr> else x)
            (docs db) \<and>
      lookup (snd (joinEvent (updateEventSchema_spec L) (\<lambda>s. s) db eventId userId)) eventId
        = Some (ev\<lparr>attendees := attendees ev @ [userId]\<rparr>) \<and>
      (int (length (attendees ev)) = capacity ev - 1 \<longrightarrow>
         int (length (attendees (ev\<lparr>attendees := attendees ev @ [userId]\<rparr>))) = capacity ev))"
proof (intro conjI allI impI)
  assume h: "lookup db eventId = None"
  show "fst (joinEvent S env db eventId userId) = Failure 404 ''Event not found''"
    by (simp add: join_not_found [OF assms h])
  show "docs (snd (joinEvent S env db eventId userId)) = docs db"
    by (simp add: join_not_found [OF assms h] called_simps)
next
  fix ev assume h: "lookup db eventId = Some ev \<and> userId \<in> set (attendees ev)"
  note j = join_already [OF assms h [THEN conjunct1] h [THEN conjunct2]]
  show "fst (joinEvent S env db eventId userId) = Failure 400 ''User already joined the event''"
    by (simp add: j)
  show "docs (snd (joinEvent S env db eventId userId)) = docs db"
    by (simp add: j called_simps)
next
  fix ev assume h: "lookup db eventId = Some ev \<and> userId \<notin> set (attendees ev) \<and>
         capacity ev \<le> int (length (attendees ev))"
  note j = join_full [OF assms h [THEN conjunct1] h [THEN conjunct2, THEN conjunct1]
      h [THEN conjunct2, THEN conjunct2]]
  show "fst (joinEvent S env db eventId userId) = Failure 400 ''Event is at full capacity''"
    by (simp add: j)
  show "docs (snd (joinEvent S env db eventId userId)) = docs db"
    by (simp add: j called_simps)
next
  fix ev assume h: "lookup db eventId = Some ev \<and> userId \<notin> set (attendees ev) \<and>
         int (length (attendees ev)) < capacity ev"
  note j = join_success [OF assms h [THEN conjunct1] h [THEN conjunct2, THEN conjunct1]
      h [THEN conjunct2, THEN conjunct2]]
  show "fst (joinEvent (updateEventSchema_spec L) (\<lambda>s. s) db eventId userId)
        = Success 200 (Some (ev\<lparr>attendees := attendees ev @ [userId]\<rparr>))"
    by (simp add: j)
  show "docs (snd (joinEvent (updateEventSchema_spec L) (\<lambda>s. s) db eventId userId))
        = map (\<lambda>x. if ident x = eventId then x\<lparr>attendees := attendees ev @ [userId]\<rparr> else x)
            (docs db)"
    by (simp add: j)
  show "lookup (snd (joinEvent (updateEventSchema_spec L) (\<lambda>s. s) db eventId userId)) eventId
        = Some (ev\<lparr>attendees := attendees ev @ [userId]\<rparr>)"
    by (simp add: j lookup_after_attendees h [THEN conjunct1])
  show "int (length (attendees (ev\<lparr>attendees := attendees ev @ [userId]\<rparr>))) = capacity ev"
    if "int (length (attendees ev)) = capacity ev - 1"
    using that by simp
qed

theorem join_outcomes_witness:
  "fst (joinEvent (updateEventSchema_spec exampleLevels) (\<lambda>s. s)
      (exampleStore [exampleEvent ''e1'' 10 1 []]) ''e1'' ''U2'')
     = Success 200 (Some (exampleEvent ''e1'' 10 1 [''U2''])) \<and>
   docs (snd (joinEvent (updateEventSchema_spec exampleLevels) (\<lambda>s. s)
      (exampleStore [exampleEvent ''e1'' 10 1 []]) ''e1'' ''U2''))
     = [exampleEvent ''e1'' 10 1 [''U2'']] \<and>
   int (length (attendees (exampleEvent ''e1'' 10 1 [''U2''])))
     = capacity (exampleEvent ''e1'' 10 1 []) \<and>
   fst (joinEvent (updateEventSchema_spec exampleLevels) (\<lambda>s. s)
      (exampleStore [exampleEvent ''e1'' 10 1 [''U2'']]) ''e1'' ''U3'')
     = Failure 400 ''Event is at full capacity'' \<and>
   fst (joinEvent (updateEventSchema_spec exampleLevels) (\<lambda>s. s)
      (exampleStore [exampleEvent ''e1'' 10 3 [''U2'']]) ''e1'' ''U2'')
     = Failure 400 ''User already joined the event'' \<and>
   fst (joinEvent (updateEventSchema_spec exampleLevels) (\<lambda>s. s)
      (exampleStore [exampleEvent ''e1'' 10 1 []]) ''e7'' ''U2'')
     = Failure 404 ''Event not found''"
proof -
  have c: "\<And>es. connected (exampleStore es)" by (simp add: exampleStore_simps)
  have h0: "lookup (exampleStore [exampleEvent ''e1'' 10 1 []]) ''e1''
        = Some (exampleEvent ''e1'' 10 1 []) \<and>
      ''U2'' \<notin> set (attendees (exampleEvent ''e1'' 10 1 [])) \<and>
      int (length (attendees (exampleEvent ''e1'' 10 1 []))) < capacity (exampleEvent ''e1'' 10 1 [])"
    by (simp add: lookup_def exampleStore_simps exampleEvent_simps)
  have h1: "lookup (exampleStore [exampleEvent ''e1'' 10 1 [''U2'']]) ''e1''
        = Some (exampleEvent ''e1'' 10 1 [''U2'']) \<and>
      ''U3'' \<notin> set (attendees (exampleEvent ''e1'' 10 1 [''U2''])) \<and>
      capacity (exampleEvent ''e1'' 10 1 [''U2''])
        \<le> int (length (attendees (exampleEvent ''e1'' 10 1 [''U2''])))"
    by (simp add: lookup_def exampleStore_simps exampleEvent_simps)
  have h2: "lookup (exampleStore [exampleEvent ''e1'' 10 3 [''U2'']]) ''e1''
        = Some (exampleEvent ''e1'' 10 3 [''U2'']) \<and>
      ''U2'' \<in> set (attendees (exampleEvent ''e1'' 10 3 [''U2'']))"
    by (simp add: lookup_def exampleStore_simps exampleEvent_simps)
  have h3: "lookup (exampleStore [exampleEvent ''e1'' 10 1 []]) ''e7'' = None"
    by (simp add: lookup_def exampleStore_simps exampleEvent_simps)
  have h4: "int (length (attendees (exampleEvent ''e1'' 10 1 [])))
      = capacity (exampleEvent ''e1'' 10 1 []) - 1"
    by (simp add: exampleEvent_simps)
  note a = join_outcomes [OF c, where es1 = "[exampleEvent ''e1'' 10 1 []]"
      and eventId = "''e1''" and userId = "''U2''" and L = exampleLevels,
      THEN conjunct2, THEN conjunct2, THEN conjunct2, THEN spec, THEN mp, OF h0]
  note b = join_outcomes [OF c, where es1 = "[exampleEvent ''e1'' 10 1 [''U2'']]"
      and eventId = "''e1''" and userId = "''U3''"
      and S = "updateEventSchema_spec exampleLevels" and env = "\<lambda>s. s",
      THEN conjunct2, THEN conjunct2, THEN conjunct1, THEN spec, THEN mp, OF h1, THEN conjunct1]
  note c' = join_outcomes [OF c, where es1 = "[exampleEvent ''e1'' 10 3 [''U2'']]"
      and eventId = "''e1''" and userId = "''U2''"
      and S = "updateEventSchema_spec exampleLevels" and env = "\<lambda>s. s",
      THEN conjunct2, THEN conjunct1, THEN spec, THEN mp, OF h2, THEN conjunct1]
  note d = join_outcomes [OF c, where es1 = "[exampleEvent ''e1'' 10 1 []]"
      and eventId = "''e7''" and userId = "''U2''"
      and S = "updateEventSchema_spec exampleLevels" and env = "\<lambda>s. s",
      THEN conjunct1, THEN mp, OF h3, THEN conjunct1]
  note a1 = a [THEN conjunct1] and a2 = a [THEN conjunct2, THEN conjunct1]
    and a4 = a [THEN conjunct2, THEN conjunct2, THEN conjunct2, THEN mp, OF h4]
  from a1 a2 a4 b c' d show ?thesis
    by (simp add: exampleEvent_simps exampleStore_simps)
qed

lemma leave_not_found:
  "connected db \<Longrightarrow> lookup db eventId = None \<Longrightarrow>
     leaveEvent S env db eventId userId
       = (Failure 404 ''Event not found'', called (CallFindOne eventId) db)"
  by (simp add: leaveEvent_def findById_outcome)

lemma leave_not_attendee:
  "connected db \<Longrightarrow> lookup db eventId = Some ev \<Longrightarrow> userId \<notin> set (attendees ev) \<Longrightarrow>
     leaveEvent S env db eventId userId
       = (Failure 400 ''User is not an attendee of the event'', called (CallFindOne eventId) db)"
  by (simp add: leaveEvent_def findById_outcome)

lemma leave_success:
  assumes "connected db" and "lookup db eventId = Some ev" and "userId \<in> set (attendees ev)"
  shows "leaveEvent (updateEventSchema_spec L) (\<lambda>s. s) db eventId userId =
       (Success 200 (Some (ev\<lparr>attendees := filter (\<lambda>a. a \<noteq> userId) (attendees ev)\<rparr>)),
        (called (CallFindByIdAndUpdate eventId) (called (CallFindOne eventId) db))
          \<lparr>docs := map (\<lambda>x. if ident x = eventId
                              then x\<lparr>attendees := filter (\<lambda>a. a \<noteq> userId) (attendees ev)\<rparr>
                              else x)
             (docs db)\<rparr>)"
proof -
  let ?db1 = "called (CallFindOne eventId) db"
  let ?xs = "filter (\<lambda>a. a \<noteq> userId) (attendees ev)"
  have c: "connected ?db1" and l: "lookup ?db1 eventId = Some ev" and d: "docs ?db1 = docs db"
    using assms(1,2) by (simp_all add: called_simps)
  have u: "EventModel_update (updateEventSchema_spec L) ?db1 eventId (attendeesOnly ?xs) =
       (Inr (Some (ev\<lparr>attendees := ?xs\<rparr>)),
        (called (CallFindByIdAndUpdate eventId) ?db1)
          \<lparr>docs := map (\<lambda>x. if ident x = eventId then x\<lparr>attendees := ?xs\<rparr> else x)
             (docs ?db1)\<rparr>)"
    using c l by (rule update_attendees_outcome)
  have f: "EventModel_findById db eventId = (Inr (Some ev), ?db1)"
    using assms(1,2) by (simp add: findById_outcome)
  show ?thesis
    unfolding leaveEvent_def f using assms(3) by (simp add: u d)
qed

text \<open>
  Claim C2. With the store answering, \<^verbatim>\<open>leave(eventId, userId)\<close> fails with 404 when no
  event has the identifier, and with 400 "User is not an attendee of the event" when the
  user is not among the attendees. Otherwise, with no other request in between, the stored
  attendees are the old ones without the entries equal to the user, in their old order.
\<close>

theorem leave_outcomes:
  assumes "connected db"
  shows
  "(lookup db eventId = None \<longrightarrow>
      fst (leaveEvent S env db eventId userId) = Failure 404 ''Event not found'' \<and>
      docs (snd (leaveEvent S env db eventId userId)) = docs db) \<and>
   (\<forall>ev. lookup db eventId = Some ev \<and> userId \<notin> set (attendees ev) \<longrightarrow>
      fst (leaveEvent S env db eventId userId)
        = Failure 400 ''User is not an attendee of the event'' \<and>
      docs (snd (leaveEvent S env db eventId userId)) = docs db) \<and>
   (\<forall>ev. lookup db eventId = Some ev \<and> userId \<in> set (attendees ev) \<longrightarrow>
      fst (leaveEvent (updateEventSchema_spec L) (\<lambda>s. s) db eventId userId)
        = Success 200 (Some (ev\<lparr>attendees := filter (\<lambda>a. a \<noteq> userId) (attendees ev)\<rparr>)) \<and>
      docs (snd (leaveEvent (updateEventSchema_spec L) (\<lambda>s. s) db eventId userId))
        = map (\<lambda>x. if ident x = eventId
                    then x\<lparr>attendees := filter (\<lambda>a. a \<noteq> userId) (attendees ev)\<rparr> else x)
            (docs db) \<and>
      lookup (snd (leaveEvent (updateEventSchema_spec L) (\<lambda>s. s) db eventId userId)) eventId
        = Some (ev\<lparr>attendees := filter (\<lambda>a. a \<noteq> userId) (attendees ev)\<rparr>))"
proof (intro conjI allI impI)
  assume h: "lookup db eventId = None"
  show "fst (leaveEvent S env db eventId userId) = Failure 404 ''Event not found''"
    by (simp add: leave_not_found [OF assms h])
  show "docs (snd (leaveEvent S env db eventId userId)) = docs db"
    by (simp add: leave_not_found [OF assms h] called_simps)
next
  fix ev assume h: "lookup db eventId = Some ev \<and> userId \<notin> set (attendees ev)"
  note j = leave_not_attendee [OF assms h [THEN conjunct1] h [THEN conjunct2]]
  show "fst (leaveEvent S env db eventId userId)
        = Failure 400 ''User is not an attendee of the event''"
    by (simp add: j)
  show "docs (snd (leaveEvent S env db eventId userId)) = docs db"
    by (simp add: j called_simps)
next
  fix ev assume h: "lookup db eventId = Some ev \<and> userId \<in> set (attendees ev)"
  note j = leave_success [OF assms h [THEN conjunct1] h [THEN conjunct2]]
  show "fst (leaveEvent (updateEventSchema_spec L) (\<lambda>s. s) db eventId userId)
        = Success 200 (Some (ev\<lparr>attendees := filter (\<lambda>a. a \<noteq> userId) (attendees ev)\<rparr>))"
    by (simp add: j)
  show "docs (snd (leaveEvent (updateEventSchema_spec L) (\<lambda>s. s) db eventId userId))
        = map (\<lambda>x. if ident x = eventId
                    then x\<lparr>attendees := filter (\<lambda>a. a \<noteq> userId) (attendees ev)\<rparr> else x)
            (docs db)"
    by (simp add: j)
  show "lookup (snd (leaveEvent (updateEventSchema_spec L) (\<lambda>s. s) db eventId userId)) eventId
        = Some (ev\<lparr>attendees := filter (\<lambda>a. a \<noteq> userId) (attendees ev)\<rparr>)"
    by (simp add: j lookup_after_attendees h [THEN conjunct1])
qed

theorem leave_outcomes_witness:
  "fst (leaveEvent (updateEventSchema_spec exampleLevels) (\<lambda>s. s)
      (exampleStore [exampleEvent ''e1'' 10 5 [''U1'', ''U2'', ''U3'']]) ''e1'' ''U2'')
     = Success 200 (Some (exampleEvent ''e1'' 10 5 [''U1'', ''U3''])) \<and>
   docs (snd (leaveEvent (updateEventSchema_spec exampleLevels) (\<lambda>s. s)
      (exampleStore [exampleEvent ''e1'' 10 5 [''U1'', ''U2'', ''U3'']]) ''e1'' ''U2''))
     = [exampleEvent ''e1'' 10 5 [''U1'', ''U3'']] \<and>
   fst (leaveEvent (updateEventSchema_spec exampleLevels) (\<lambda>s. s)
      (exampleStore [exampleEvent ''e1'' 10 5 []]) ''e1'' ''U2'')
     = Failure 400 ''User is not an attendee of the event'' \<and>
   fst (leaveEvent (updateEventSchema_spec exampleLevels) (\<lambda>s. s)
      (exampleStore [exampleEvent ''e1'' 10 5 []]) ''e7'' ''U2'')
     = Failure 404 ''Event not found''"
proof -
  have c: "\<And>es. connected (exampleStore es)" by (simp add: exampleStore_simps)
  have h0: "lookup (exampleStore [exampleEvent ''e1'' 10 5 [''U1'', ''U2'', ''U3'']]) ''e1''
        = Some (exampleEvent ''e1'' 10 5 [''U1'', ''U2'', ''U3'']) \<and>
      ''U2'' \<in> set (attendees (exampleEvent ''e1'' 10 5 [''U1'', ''U2'', ''U3'']))"
    by (simp add: lookup_def exampleStore_simps exampleEvent_simps)
  have h1: "lookup (exampleStore [exampleEvent ''e1'' 10 5 []]) ''e1''
        = Some (exampleEvent ''e1'' 10 5 []) \<and>
      ''U2'' \<notin> set (attendees (exampleEvent ''e1'' 10 5 []))"
    by (simp add: lookup_def exampleStore_simps exampleEvent_simps)
  have h2: "lookup (exampleStore [exampleEvent ''e1'' 10 5 []]) ''e7'' = None"
    by (simp add: lookup_def exampleStore_simps exampleEvent_simps)
  note a = leave_outcomes [OF c, where es1 = "[exampleEvent ''e1'' 10 5 [''U1'', ''U2'', ''U3'']]"
      and eventId = "''e1''" and userId = "''U2''" and L = exampleLevels,
      THEN conjunct2, THEN conjunct2, THEN spec, THEN mp, OF h0]
  note b = leave_outcomes [OF c, where es1 = "[exampleEvent ''e1'' 10 5 []]"
      and eventId = "''e1''" and userId = "''U2''"
      and S = "updateEventSchema_spec exampleLevels" and env = "\<lambda>s. s",
      THEN conjunct2, THEN conjunct1, THEN spec, THEN mp, OF h1, THEN conjunct1]
  note d = leave_outcomes [OF c, where es1 = "[exampleEvent ''e1'' 10 5 []]"
      and eventId = "''e7''" and userId = "''U2''"
      and S = "updateEventSchema_spec exampleLevels" and env = "\<lambda>s. s",
      THEN conjunct1, THEN mp, OF h2, THEN conjunct1]
  note a1 = a [THEN conjunct1] and a2 = a [THEN conjunct2, THEN conjunct1]
  from a1 a2 b d show ?thesis
    by (simp add: exampleEvent_simps exampleStore_simps)
qed

lemma join_update_null:
  assumes f: "EventModel_findById db eventId = (Inr (Some ev), db1)"
    and n: "userId \<notin> set (attendees ev)" and c: "int (length (attendees ev)) < capacity ev"
    and u: "fst (EventModel_update S (env db1) eventId (attendeesOnly (attendees ev @ [userId])))
              = Inr None"
  shows "fst (joinEvent S env db eventId userId) = Failure 500 ''Failed to update event''"
proof -
  obtain db2 where u': "EventModel_update S (env db1) eventId
      (attendeesOnly (attendees ev @ [userId])) = (Inr None, db2)"
    using u by (cases "EventModel_update S (env db1) eventId
      (attendeesOnly (attendees ev @ [userId]))") simp
  have c': "\<not> capacity ev \<le> int (length (attendees ev))" using c by simp
  show ?thesis unfolding joinEvent_def f using n c' by (simp add: u')
qed

lemma leave_update_null:
  assumes f: "EventModel_findById db eventId = (Inr (Some ev), db1)"
    and n: "userId \<in> set (attendees ev)"
    and u: "fst (EventModel_update S (env db1) eventId
               (attendeesOnly (filter (\<lambda>a. a \<noteq> userId) (attendees ev)))) = Inr None"
  shows "fst (leaveEvent S env db eventId userId) = Failure 500 ''Failed to update event''"
proof -
  obtain db2 where u': "EventModel_update S (env db1) eventId
      (attendeesOnly (filter (\<lambda>a. a \<noteq> userId) (attendees ev))) = (Inr None, db2)"
    using u by (cases "EventModel_update S (env db1) eventId
      (attendeesOnly (filter (\<lambda>a. a \<noteq> userId) (attendees ev)))") simp
  show ?thesis unfolding leaveEvent_def f using n by (simp add: u')
qed

text \<open>
  Claim C4. When join or leave has loaded the event, the checks have passed and the
  \<^verbatim>\<open>update\<close> that follows returns null (whatever the other requests did in between),
  the response is the 500 with the message "Failed to update event".
\<close>

theorem vanished_record_is_persistence_error:
  "(\<forall>ev db1. EventModel_findById db eventId = (Inr (Some ev), db1) \<and>
        userId \<notin> set (attendees ev) \<and> int (length (attendees ev)) < capacity ev \<and>
        fst (EventModel_update S (env db1) eventId (attendeesOnly (attendees ev @ [userId])))
          = Inr None \<longrightarrow>
      fst (joinEvent S env db eventId userId) = Failure 500 ''Failed to update event'') \<and>
   (\<forall>ev db1. EventModel_findById db eventId = (Inr (Some ev), db1) \<and>
        userId \<in> set (attendees ev) \<and>
        fst (EventModel_update S (env db1) eventId
               (attendeesOnly (filter (\<lambda>a. a \<noteq> userId) (attendees ev)))) = Inr None \<longrightarrow>
      fst (leaveEvent S env db eventId userId) = Failure 500 ''Failed to update event'')"
proof (intro conjI allI impI)
  fix ev db1
  assume h: "EventModel_findById db eventId = (Inr (Some ev), db1) \<and>
        userId \<notin> set (attendees ev) \<and> int (length (attendees ev)) < capacity ev \<and>
        fst (EventModel_update S (env db1) eventId (attendeesOnly (attendees ev @ [userId])))
          = Inr None"
  show "fst (joinEvent S env db eventId userId) = Failure 500 ''Failed to update event''"
    by (rule join_update_null [where env = env, OF h [THEN conjunct1] h [THEN conjunct2, THEN conjunct1]
          h [THEN conjunct2, THEN conjunct2, THEN conjunct1]
          h [THEN conjunct2, THEN conjunct2, THEN conjunct2]])
next
  fix ev db1
  assume h: "EventModel_findById db eventId = (Inr (Some ev), db1) \<and>
        userId \<in> set (attendees ev) \<and>
        fst (EventModel_update S (env db1) eventId
               (attendeesOnly (filter (\<lambda>a. a \<noteq> userId) (attendees ev)))) = Inr None"
  show "fst (leaveEvent S env db eventId userId) = Failure 500 ''Failed to update event''"
    by (rule leave_update_null [where env = env, OF h [THEN conjunct1] h [THEN conjunct2, THEN conjunct1]
          h [THEN conjunct2, THEN conjunct2]])
qed

theorem vanished_record_is_persistence_error_witness:
  "fst (joinEvent (updateEventSchema_spec exampleLevels) dropAll
      (exampleStore [exampleEvent ''e1'' 10 10 []]) ''e1'' ''U2'')
     = Failure 500 ''Failed to update event'' \<and>
   fst (leaveEvent (updateEventSchema_spec exampleLevels) dropAll
      (exampleStore [exampleEvent ''e1'' 10 10 [''U2'']]) ''e1'' ''U2'')
     = Failure 500 ''Failed to update event''"
proof -
  have u: "\<And>db xs. connected db \<Longrightarrow>
      fst (EventModel_update (updateEventSchema_spec exampleLevels) (dropAll db) ''e1''
             (attendeesOnly xs)) = Inr None"
    by (simp add: EventModel_update_def attendeesOnly_accepted Event_findByIdAndUpdate_def
        Let_def dropAll_def lookup_def)
  have c: "\<And>es c. connected (called c (exampleStore es))"
    by (simp add: exampleStore_simps called_simps)
  have h0: "EventModel_findById (exampleStore [exampleEvent ''e1'' 10 10 []]) ''e1''
        = (Inr (Some (exampleEvent ''e1'' 10 10 [])),
           called (CallFindOne ''e1'') (exampleStore [exampleEvent ''e1'' 10 10 []])) \<and>
      ''U2'' \<notin> set (attendees (exampleEvent ''e1'' 10 10 [])) \<and>
      int (length (attendees (exampleEvent ''e1'' 10 10 []))) < capacity (exampleEvent ''e1'' 10 10 []) \<and>
      fst (EventModel_update (updateEventSchema_spec exampleLevels)
             (dropAll (called (CallFindOne ''e1'') (exampleStore [exampleEvent ''e1'' 10 10 []])))
             ''e1'' (attendeesOnly (attendees (exampleEvent ''e1'' 10 10 []) @ [''U2''])))
        = Inr None"
    by (simp add: findById_outcome lookup_def exampleStore_simps exampleEvent_simps u [OF c])
  have h1: "EventModel_findById (exampleStore [exampleEvent ''e1'' 10 10 [''U2'']]) ''e1''
        = (Inr (Some (exampleEvent ''e1'' 10 10 [''U2''])),
           called (CallFindOne ''e1'') (exampleStore [exampleEvent ''e1'' 10 10 [''U2'']])) \<and>
      ''U2'' \<in> set (attendees (exampleEvent ''e1'' 10 10 [''U2''])) \<and>
      fst (EventModel_update (updateEventSchema_spec exampleLevels)
             (dropAll (called (CallFindOne ''e1'') (exampleStore [exampleEvent ''e1'' 10 10 [''U2'']])))
             ''e1'' (attendeesOnly (filter (\<lambda>a. a \<noteq> ''U2'')
                (attendees (exampleEvent ''e1'' 10 10 [''U2''])))))
        = Inr None"
    by (simp add: findById_outcome lookup_def exampleStore_simps exampleEvent_simps u [OF c])
  note a = vanished_record_is_persistence_error [where env = dropAll
      and S = "updateEventSchema_spec exampleLevels", THEN conjunct1, rule_format, OF h0]
  note b = vanished_record_is_persistence_error [where env = dropAll
      and S = "updateEventSchema_spec exampleLevels", THEN conjunct2, rule_format, OF h1]
  from a b show ?thesis by (intro conjI)
qed

section \<open>Malformed identifiers\<close>

text \<open>
  Claim C8. For an \<^verbatim>\<open>id\<close> that is not a well-formed object identifier,
  \<^verbatim>\<open>GET /events/:id\<close> and \<^verbatim>\<open>DELETE /events/:id\<close> answer 400 "Invalid event id" and
  return the store as it was, its record of calls included: no operation of the gateway
  ran (each of them records a call, as the lemma after the theorem shows).
\<close>

theorem malformed_id_rejected:
  "\<not> isValidObjectId idParam \<Longrightarrow>
     getEventById isValidObjectId db idParam = (Failure 400 ''Invalid event id'', db) \<and>
     deleteEvent isValidObjectId db idParam = (Failure 400 ''Invalid event id'', db)"
  by (simp add: getEventById_def deleteEvent_def)

theorem malformed_id_rejected_witness:
  "\<not> isHexString24 ''invalid-id'' \<and>
   getEventById isHexString24 (exampleStore [exampleEvent ''e1'' 10 2 []]) ''invalid-id''
     = (Failure 400 ''Invalid event id'', exampleStore [exampleEvent ''e1'' 10 2 []]) \<and>
   deleteEvent isHexString24 (exampleStore [exampleEvent ''e1'' 10 2 []]) ''invalid-id''
     = (Failure 400 ''Invalid event id'', exampleStore [exampleEvent ''e1'' 10 2 []])"
proof -
  have a: "\<not> isHexString24 ''invalid-id''" by (simp add: isHexString24_def)
  note t = malformed_id_rejected [where isValidObjectId = isHexString24
      and idParam = "''invalid-id''" and db = "exampleStore [exampleEvent ''e1'' 10 2 []]", OF a]
  from a t show ?thesis by simp
qed

lemma wellformed_id_reaches_gateway:
  "isValidObjectId idParam \<Longrightarrow>
     calls (snd (getEventById isValidObjectId db idParam)) = calls db @ [CallFindOne idParam] \<and>
     calls (snd (deleteEvent isValidObjectId db idParam)) \<noteq> calls db"
  by (simp add: getEventById_def deleteEvent_def findById_outcome delete_outcome called_def
      split: option.splits)

section \<open>Rejections and exceptions under the wrapper\<close>

text \<open>
  Claim C10. When the wrapped handler returns a promise that rejects with \<open>e\<close>, the
  wrapper returns normally and the world is the one after a single call of \<^verbatim>\<open>next\<close>
  with \<open>e\<close>; the rejection \<open>e\<close> is handled, and a rejection is left unhandled only if
  \<^verbatim>\<open>next\<close> itself throws. When the handler throws synchronously, the wrapper throws
  the same exception and does not call \<^verbatim>\<open>next\<close>.
\<close>

theorem asyncHandler_forwards_rejection:
  "(fn req nxt w = (Normal (APromise (Rejected e)), w1) \<longrightarrow>
      completion (asyncHandler fn req nxt w) = Normal () \<and>
      world (asyncHandler fn req nxt w) = snd (nxt e w1) \<and>
      unhandled (asyncHandler fn req nxt w)
        = (case fst (nxt e w1) of Normal u \<Rightarrow> [] | Throw e2 \<Rightarrow> [e2])) \<and>
   (fn req nxt w = (Throw e, w1) \<longrightarrow>
      asyncHandler fn req nxt w = \<lparr>completion = Throw e, unhandled = [], world = w1\<rparr>)"
proof (intro conjI impI)
  assume h: "fn req nxt w = (Normal (APromise (Rejected e)), w1)"
  obtain c w2 where n: "nxt e w1 = (c, w2)" by (cases "nxt e w1")
  show "completion (asyncHandler fn req nxt w) = Normal ()"
    and "world (asyncHandler fn req nxt w) = snd (nxt e w1)"
    and "unhandled (asyncHandler fn req nxt w)
        = (case fst (nxt e w1) of Normal u \<Rightarrow> [] | Throw e2 \<Rightarrow> [e2])"
    by (cases c; simp add: asyncHandler_def h n)+
next
  assume h: "fn req nxt w = (Throw e, w1)"
  show "asyncHandler fn req nxt w = \<lparr>completion = Throw e, unhandled = [], world = w1\<rparr>"
    by (simp add: asyncHandler_def h)
qed

theorem asyncHandler_forwards_rejection_witness:
  "asyncHandler rejectingHandler () exampleNext []
     = \<lparr>completion = Normal (), unhandled = [], world = [''Database error'']\<rparr> \<and>
   asyncHandler throwingHandler () exampleNext []
     = \<lparr>completion = Throw ''Invalid input'', unhandled = [], world = []\<rparr>"
proof -
  have a: "rejectingHandler () exampleNext [] = (Normal (APromise (Rejected ''Database error'')), [])"
    by (simp add: rejectingHandler_def)
  have b: "throwingHandler () exampleNext [] = (Throw ''Invalid input'', [])"
    by (simp add: throwingHandler_def)
  note t1 = asyncHandler_forwards_rejection [where fn = rejectingHandler and req = "()"
      and nxt = exampleNext and w = "[]", THEN conjunct1, THEN mp, OF a]
  note t2 = asyncHandler_forwards_rejection [where fn = throwingHandler and req = "()"
      and nxt = exampleNext and w = "[]", THEN conjunct2, THEN mp, OF b]
  have "asyncHandler rejectingHandler () exampleNext []
     = \<lparr>completion = Normal (), unhandled = [], world = [''Database error'']\<rparr>"
    using t1 by (intro Outcome.equality) (simp_all add: exampleNext_def)
  with t2 show ?thesis by (intro conjI)
qed

end
